theory Spec2Isabelle
  imports Main "HOL-Library.Word"
begin

unbundle bit_operations_syntax

section \<open>Python values used by \<^verbatim>\<open>flask_digest_auth/algo.py\<close>\<close>

text \<open>
  A Python \<^verbatim>\<open>str\<close> is a sequence of Unicode code points, so it is modelled as a list
  of natural numbers (the values of \<^verbatim>\<open>ord\<close>); \<^verbatim>\<open>bytes\<close> is a list of 8-bit words.
  An optional parameter (\<^verbatim>\<open>t.Optional[...]\<close>, default \<^verbatim>\<open>None\<close>) is an \<open>option\<close>.
  The type annotations \<^verbatim>\<open>t.Literal["auth", "auth-int"]\<close> and
  \<^verbatim>\<open>t.Literal["MD5", "MD5-sess"]\<close> are not enforced at run time: the code compares
  the values as strings and has branches for every other string, so \<open>qop\<close> and
  \<open>algorithm\<close> are optional strings here as well.
\<close>

type_synonym byte = "8 word"
type_synonym pystr = "nat list"
type_synonym pybytes = "byte list"

text \<open>An ASCII string literal of the source, as the list of its code points.\<close>

definition str :: "string \<Rightarrow> pystr" where
  "str s = map of_char s"

text \<open>
  The text \<^verbatim>\<open>\"{v}\"\<close> of an f-string: the value between two quotation marks
  (code point 34).
\<close>

definition quoted :: "pystr \<Rightarrow> pystr" where
  "quoted v = 34 # v @ [34]"

text \<open>
  Modelled from the spec: the class \<^verbatim>\<open>UnauthorizedException\<close> that the module imports
  from \<^verbatim>\<open>flask_digest_auth.exception\<close> is not among the sources. It is the single error
  kind of the spec (\<^verbatim>\<open>InvalidParameters\<close>, surfaced as an unauthorized signal), an
  exception that carries the message it is raised with. The other exception that can
  leave the module is the \<^verbatim>\<open>UnicodeEncodeError\<close> that \<^verbatim>\<open>str.encode("utf8")\<close> raises.
\<close>

datatype error = UnauthorizedException pystr | UnicodeEncodeError

section \<open>\<^verbatim>\<open>str.encode("utf8")\<close>\<close>

text \<open>
  The strict UTF-8 codec: one to four bytes per code point, and an error for the
  surrogate code points \<^verbatim>\<open>U+D800\<close> to \<^verbatim>\<open>U+DFFF\<close> (\<^verbatim>\<open>surrogates not allowed\<close>).
  A number from \<^verbatim>\<open>0x110000\<close> on is not a code point (no Python string holds it);
  the model rejects it in the same way.
\<close>

definition utf8_char :: "nat \<Rightarrow> error + pybytes" where
  "utf8_char c =
     (if c < 0x80 then Inr [of_nat c]
      else if c < 0x800 then Inr [of_nat (0xC0 + c div 64), of_nat (0x80 + c mod 64)]
      else if 0xD800 \<le> c \<and> c \<le> 0xDFFF then Inl UnicodeEncodeError
      else if c < 0x10000 then
        Inr [of_nat (0xE0 + c div 4096), of_nat (0x80 + c div 64 mod 64),
             of_nat (0x80 + c mod 64)]
      else if c < 0x110000 then
        Inr [of_nat (0xF0 + c div 262144), of_nat (0x80 + c div 4096 mod 64),
             of_nat (0x80 + c div 64 mod 64), of_nat (0x80 + c mod 64)]
      else Inl UnicodeEncodeError)"

fun utf8_encode :: "pystr \<Rightarrow> error + pybytes" where
  "utf8_encode [] = Inr []"
| "utf8_encode (c # cs) =
     (case utf8_char c of
        Inl e \<Rightarrow> Inl e
      | Inr bs \<Rightarrow> (case utf8_encode cs of Inl e \<Rightarrow> Inl e | Inr rest \<Rightarrow> Inr (bs @ rest)))"

section \<open>\<^verbatim>\<open>hashlib.md5\<close>: the MD5 message digest of RFC 1321\<close>

type_synonym word32 = "32 word"
type_synonym md5_state = "word32 \<times> word32 \<times> word32 \<times> word32"

datatype md5_round = RoundF | RoundG | RoundH | RoundI

text \<open>The four auxiliary functions F, G, H and I, on the registers b, c and d.\<close>

fun md5_mix :: "md5_round \<Rightarrow> word32 \<Rightarrow> word32 \<Rightarrow> word32 \<Rightarrow> word32" where
  "md5_mix RoundF b c d = (b AND c) OR (NOT b AND d)"
| "md5_mix RoundG b c d = (b AND d) OR (c AND NOT d)"
| "md5_mix RoundH b c d = b XOR c XOR d"
| "md5_mix RoundI b c d = c XOR (b OR NOT d)"

definition rotl32 :: "nat \<Rightarrow> word32 \<Rightarrow> word32" where
  "rotl32 n x = push_bit n x OR drop_bit (32 - n) x"

text \<open>
  One operation \<^verbatim>\<open>a = b + ((a + f(b,c,d) + X[g] + T[i]) <<< s)\<close> followed by the
  rotation of the registers. An operation is given by its constant \<open>T[i]\<close>, its shift
  \<open>s\<close> and the index \<open>g\<close> of the message word it reads.
\<close>

fun md5_step :: "word32 list \<Rightarrow> md5_round \<Rightarrow> md5_state \<Rightarrow> word32 \<times> nat \<times> nat \<Rightarrow> md5_state" where
  "md5_step m r (a, b, c, d) (k, s, g) =
     (d, b + rotl32 s (a + md5_mix r b c d + k + m ! g), b, c)"

fun md5_steps :: "word32 list \<Rightarrow> md5_round \<Rightarrow> (word32 \<times> nat \<times> nat) list \<Rightarrow> md5_state \<Rightarrow> md5_state" where
  "md5_steps m r [] st = st"
| "md5_steps m r (p # ps) st = md5_steps m r ps (md5_step m r st p)"

definition md5_round1 :: "(word32 \<times> nat \<times> nat) list" where
  "md5_round1 = [
    (0xd76aa478, 7, 0), (0xe8c7b756, 12, 1), (0x242070db, 17, 2), (0xc1bdceee, 22, 3),
    (0xf57c0faf, 7, 4), (0x4787c62a, 12, 5), (0xa8304613, 17, 6), (0xfd469501, 22, 7),
    (0x698098d8, 7, 8), (0x8b44f7af, 12, 9), (0xffff5bb1, 17, 10), (0x895cd7be, 22, 11),
    (0x6b901122, 7, 12), (0xfd987193, 12, 13), (0xa679438e, 17, 14), (0x49b40821, 22, 15)]"

definition md5_round2 :: "(word32 \<times> nat \<times> nat) list" where
  "md5_round2 = [
    (0xf61e2562, 5, 1), (0xc040b340, 9, 6), (0x265e5a51, 14, 11), (0xe9b6c7aa, 20, 0),
    (0xd62f105d, 5, 5), (0x02441453, 9, 10), (0xd8a1e681, 14, 15), (0xe7d3fbc8, 20, 4),
    (0x21e1cde6, 5, 9), (0xc33707d6, 9, 14), (0xf4d50d87, 14, 3), (0x455a14ed, 20, 8),
    (0xa9e3e905, 5, 13), (0xfcefa3f8, 9, 2), (0x676f02d9, 14, 7), (0x8d2a4c8a, 20, 12)]"

definition md5_round3 :: "(word32 \<times> nat \<times> nat) list" where
  "md5_round3 = [
    (0xfffa3942, 4, 5), (0x8771f681, 11, 8), (0x6d9d6122, 16, 11), (0xfde5380c, 23, 14),
    (0xa4beea44, 4, 1), (0x4bdecfa9, 11, 4), (0xf6bb4b60, 16, 7), (0xbebfbc70, 23, 10),
    (0x289b7ec6, 4, 13), (0xeaa127fa, 11, 0), (0xd4ef3085, 16, 3), (0x04881d05, 23, 6),
    (0xd9d4d039, 4, 9), (0xe6db99e5, 11, 12), (0x1fa27cf8, 16, 15), (0xc4ac5665, 23, 2)]"

definition md5_round4 :: "(word32 \<times> nat \<times> nat) list" where
  "md5_round4 = [
    (0xf4292244, 6, 0), (0x432aff97, 10, 7), (0xab9423a7, 15, 14), (0xfc93a039, 21, 5),
    (0x655b59c3, 6, 12), (0x8f0ccc92, 10, 3), (0xffeff47d, 15, 10), (0x85845dd1, 21, 1),
    (0x6fa87e4f, 6, 8), (0xfe2ce6e0, 10, 15), (0xa3014314, 15, 6), (0x4e0811a1, 21, 13),
    (0xf7537e82, 6, 4), (0xbd3af235, 10, 11), (0x2ad7d2bb, 15, 2), (0xeb86d391, 21, 9)]"

fun md5_add :: "md5_state \<Rightarrow> md5_state \<Rightarrow> md5_state" where
  "md5_add (a0, b0, c0, d0) (a, b, c, d) = (a0 + a, b0 + b, c0 + c, d0 + d)"

text \<open>The compression of one block of sixteen message words into the state.\<close>

definition md5_compress :: "md5_state \<Rightarrow> word32 list \<Rightarrow> md5_state" where
  "md5_compress st m =
     md5_add st (md5_steps m RoundI md5_round4 (md5_steps m RoundH md5_round3
       (md5_steps m RoundG md5_round2 (md5_steps m RoundF md5_round1 st))))"

text \<open>Message words are read from the bytes low-order byte first.\<close>

definition le_word32 :: "byte \<Rightarrow> byte \<Rightarrow> byte \<Rightarrow> byte \<Rightarrow> word32" where
  "le_word32 b0 b1 b2 b3 =
     ucast b0 OR push_bit 8 (ucast b1) OR push_bit 16 (ucast b2) OR push_bit 24 (ucast b3)"

fun block_words :: "pybytes \<Rightarrow> word32 list" where
  "block_words (b0 # b1 # b2 # b3 # bs) = le_word32 b0 b1 b2 b3 # block_words bs"
| "block_words bs = []"

text \<open>
  Padding: a byte \<^verbatim>\<open>0x80\<close>, zero bytes up to 56 modulo 64, and the length of the
  message in bits as a 64-bit number, low-order byte first.
\<close>

definition md5_length_bytes :: "nat \<Rightarrow> pybytes" where
  "md5_length_bytes n = (let w = (of_nat (8 * n) :: 64 word) in
     [ucast w, ucast (drop_bit 8 w), ucast (drop_bit 16 w), ucast (drop_bit 24 w),
      ucast (drop_bit 32 w), ucast (drop_bit 40 w), ucast (drop_bit 48 w),
      ucast (drop_bit 56 w)])"

definition md5_pad :: "pybytes \<Rightarrow> pybytes" where
  "md5_pad bs = bs @ 0x80 # replicate ((119 - length bs mod 64) mod 64) 0
                  @ md5_length_bytes (length bs)"

fun md5_blocks :: "md5_state \<Rightarrow> pybytes \<Rightarrow> md5_state" where
  "md5_blocks st bs =
     (if length bs < 64 then st
      else md5_blocks (md5_compress st (block_words (take 64 bs))) (drop 64 bs))"

declare md5_blocks.simps [simp del]

definition md5_init :: md5_state where
  "md5_init = (0x67452301, 0xefcdab89, 0x98badcfe, 0x10325476)"

definition md5 :: "pybytes \<Rightarrow> md5_state" where
  "md5 bs = md5_blocks md5_init (md5_pad bs)"

text \<open>\<^verbatim>\<open>.hexdigest()\<close>: the sixteen bytes of the state as 32 lowercase hexadecimal digits.\<close>

definition word32_bytes :: "word32 \<Rightarrow> pybytes" where
  "word32_bytes w = [ucast w, ucast (drop_bit 8 w), ucast (drop_bit 16 w), ucast (drop_bit 24 w)]"

fun digest :: "md5_state \<Rightarrow> pybytes" where
  "digest (a, b, c, d) = word32_bytes a @ word32_bytes b @ word32_bytes c @ word32_bytes d"

definition hexchar :: "nat \<Rightarrow> nat" where
  "hexchar n = (if n < 10 then 48 + n else 87 + n)"

definition hex_byte :: "byte \<Rightarrow> pystr" where
  "hex_byte b = [hexchar (unat b div 16), hexchar (unat b mod 16)]"

definition hexdigest :: "md5_state \<Rightarrow> pystr" where
  "hexdigest st = concat (map hex_byte (digest st))"

section \<open>The module \<^verbatim>\<open>flask_digest_auth/algo.py\<close>\<close>

text \<open>
  The expression \<^verbatim>\<open>md5(s.encode("utf8")).hexdigest()\<close>, which the module applies to
  every string it hashes, and \<^verbatim>\<open>md5(body).hexdigest()\<close> on bytes.
\<close>

definition md5_hexdigest :: "pybytes \<Rightarrow> pystr" where
  "md5_hexdigest bs = hexdigest (md5 bs)"

definition md5_utf8 :: "pystr \<Rightarrow> error + pystr" where
  "md5_utf8 s = (case utf8_encode s of Inl e \<Rightarrow> Inl e | Inr bs \<Rightarrow> Inr (md5_hexdigest bs))"

definition make_password_hash :: "pystr \<Rightarrow> pystr \<Rightarrow> pystr \<Rightarrow> error + pystr" where
  "make_password_hash realm username password =
     md5_utf8 (username @ str '':'' @ realm @ str '':'' @ password)"

text \<open>
  An optional string inside an f-string, \<^verbatim>\<open>f"{qop}"\<close>: the string itself, and the
  text \<^verbatim>\<open>None\<close> for \<^verbatim>\<open>None\<close>.
\<close>

fun fmt :: "pystr option \<Rightarrow> pystr" where
  "fmt None = str ''None''"
| "fmt (Some s) = s"

text \<open>\<^verbatim>\<open>__calc_ha1(password_hash, nonce, algorithm, cnonce)\<close>\<close>

definition calc_ha1 :: "pystr \<Rightarrow> pystr \<Rightarrow> pystr option \<Rightarrow> pystr option \<Rightarrow> error + pystr" where
  "calc_ha1 password_hash nonce algorithm cnonce =
     (if algorithm = None \<or> algorithm = Some (str ''MD5'') then Inr password_hash
      else if algorithm = Some (str ''MD5-sess'') then
        (case cnonce of
           None \<Rightarrow> Inl (UnauthorizedException
             (str ''Missing '' @ quoted (str ''cnonce'') @ str '' with algorithm=''
                @ quoted (fmt algorithm)))
         | Some cn \<Rightarrow> md5_utf8 (password_hash @ str '':'' @ nonce @ str '':'' @ cn))
      else Inl (UnauthorizedException
             (str ''Unsupported algorithm='' @ quoted (fmt algorithm))))"

text \<open>\<^verbatim>\<open>__calc_ha2(method, uri, qop, body)\<close>\<close>

definition calc_ha2 :: "pystr \<Rightarrow> pystr \<Rightarrow> pystr option \<Rightarrow> pybytes option \<Rightarrow> error + pystr" where
  "calc_ha2 method uri qop body =
     (if qop = None \<or> qop = Some (str ''auth'') then md5_utf8 (method @ str '':'' @ uri)
      else if qop = Some (str ''auth-int'') then
        (case body of
           None \<Rightarrow> Inl (UnauthorizedException
             (str ''Missing '' @ quoted (str ''body'') @ str '' with qop='' @ quoted (fmt qop)))
         | Some b \<Rightarrow> md5_utf8 (method @ str '':'' @ uri @ str '':'' @ md5_hexdigest b))
      else Inl (UnauthorizedException (str ''Unsupported qop='' @ quoted (fmt qop))))"

text \<open>
  \<^verbatim>\<open>calc_response(method, uri, password_hash, nonce, qop, algorithm, cnonce, nc, body)\<close>.
  The function has no \<^verbatim>\<open>return\<close> after its last \<^verbatim>\<open>if\<close>: when that test is
  false Python returns \<^verbatim>\<open>None\<close>, which is the result \<open>Inr None\<close> here; a returned
  digest is \<open>Inr (Some digest)\<close>.
\<close>

definition returned :: "error + pystr \<Rightarrow> error + pystr option" where
  "returned r = (case r of Inl e \<Rightarrow> Inl e | Inr s \<Rightarrow> Inr (Some s))"

definition calc_response ::
  "pystr \<Rightarrow> pystr \<Rightarrow> pystr \<Rightarrow> pystr \<Rightarrow> pystr option \<Rightarrow> pystr option \<Rightarrow> pystr option
     \<Rightarrow> pystr option \<Rightarrow> pybytes option \<Rightarrow> error + pystr option" where
  "calc_response method uri password_hash nonce qop algorithm cnonce nc body =
     (case calc_ha1 password_hash nonce algorithm cnonce of
        Inl e \<Rightarrow> Inl e
      | Inr ha1 \<Rightarrow>
     (case calc_ha2 method uri qop body of
        Inl e \<Rightarrow> Inl e
      | Inr ha2 \<Rightarrow>
        if qop = None then
          returned (md5_utf8 (ha1 @ str '':'' @ nonce @ str '':'' @ ha2))
        else if qop = Some (str ''auth'') \<or> qop = Some (str ''auth-int'') then
          (case cnonce of
             None \<Rightarrow> Inl (UnauthorizedException
               (str ''Missing '' @ quoted (str ''cnonce'') @ str '' with the qop=''
                  @ quoted (fmt qop)))
           | Some cn \<Rightarrow>
          (case nc of
             None \<Rightarrow> Inl (UnauthorizedException
               (str ''Missing '' @ quoted (str ''nc'') @ str '' with the qop=''
                  @ quoted (fmt qop)))
           | Some n \<Rightarrow>
               returned (md5_utf8 (ha1 @ str '':'' @ nonce @ str '':'' @ n @ str '':'' @ cn
                 @ str '':'' @ fmt qop @ str '':'' @ ha2))))
        else if cnonce = None then
          Inl (UnauthorizedException (str ''Unsupported qop='' @ quoted (fmt qop)))
        else Inr None))"

text \<open>The default value of the parameter \<^verbatim>\<open>algorithm\<close> of \<^verbatim>\<open>calc_response\<close>.\<close>

definition default_algorithm :: "pystr option" where
  "default_algorithm = Some (str ''MD5-sess'')"

section \<open>Predicates used in the statements\<close>

text \<open>A code point that the UTF-8 codec accepts: a Unicode scalar value.\<close>

definition encodable :: "nat \<Rightarrow> bool" where
  "encodable c = ((c < 0xD800 \<or> 0xDFFF < c) \<and> c < 0x110000)"

text \<open>A lowercase hexadecimal digit, \<^verbatim>\<open>0\<close> to \<^verbatim>\<open>9\<close> or \<^verbatim>\<open>a\<close> to \<^verbatim>\<open>f\<close>.\<close>

definition lower_hex :: "nat \<Rightarrow> bool" where
  "lower_hex c = (48 \<le> c \<and> c \<le> 57 \<or> 97 \<le> c \<and> c \<le> 102)"

definition hex32 :: "pystr \<Rightarrow> bool" where
  "hex32 s = (length s = 32 \<and> list_all lower_hex s)"

section \<open>Basic facts\<close>

lemma md5_utf8_bytes: "utf8_encode s = Inr bs \<Longrightarrow> md5_utf8 s = Inr (md5_hexdigest bs)"
  by (simp add: md5_utf8_def)

lemma md5_utf8_error: "utf8_encode s = Inl e \<Longrightarrow> md5_utf8 s = Inl e"
  by (simp add: md5_utf8_def)

lemma MD5_neq_MD5_sess: "str ''MD5'' \<noteq> str ''MD5-sess''"
  by (simp add: str_def)

lemma auth_neq_auth_int: "str ''auth'' \<noteq> str ''auth-int''"
  by (simp add: str_def)

text \<open>
  Facts for evaluating the digest of a concrete message with the simplifier. A register
  is a 32-bit word, so \<open>take_bit 32\<close> leaves it as it is; on a numeral it brings the
  numeral back below \<open>2 ^ 32\<close>, which keeps the numerals of the 64 steps small.
\<close>

lemma take_bit_word32: "take_bit 32 (x :: word32) = x"
  by (simp add: take_bit_word_eq_self)

lemma md5_step_eval:
  "md5_step m r (a, b, c, d) (k, s, g) =
     (d, take_bit 32 (b + rotl32 s (a + md5_mix r b c d + k + m ! g)), b, c)"
  by (simp add: take_bit_word32)

lemma md5_add_eval:
  "md5_add (a0, b0, c0, d0) (a, b, c, d) =
     (take_bit 32 (a0 + a), take_bit 32 (b0 + b), take_bit 32 (c0 + c), take_bit 32 (d0 + d))"
  by (simp add: take_bit_word32)

lemma replicate_numeral: "replicate (numeral k) x = x # replicate (pred_numeral k) x"
  by (simp add: numeral_eq_Suc)

lemmas md5_eval =
  md5_utf8_def utf8_char_def str_def md5_hexdigest_def md5_def md5_pad_def
  md5_length_bytes_def Let_def replicate_numeral md5_blocks.simps md5_init_def
  md5_compress_def le_word32_def md5_round1_def md5_round2_def md5_round3_def
  md5_round4_def rotl32_def md5_step_eval md5_add_eval hexdigest_def word32_bytes_def
  hex_byte_def hexchar_def

lemma md5_empty: "md5_hexdigest [] = str ''d41d8cd98f00b204e9800998ecf8427e''"
  by (simp add: md5_eval del: md5_step.simps md5_add.simps)

lemma md5_x: "md5_hexdigest [120] = str ''9dd4e461268c8034f5c8564e155c67a6''"
  by (simp add: md5_eval del: md5_step.simps md5_add.simps)

lemma str_append: "str a @ str b = str (a @ b)"
  by (simp add: str_def)

lemma str_eq_iff: "str a = str b \<longleftrightarrow> a = b"
proof
  assume "str a = str b"
  then have "map (of_char :: char \<Rightarrow> nat) a = map of_char b"
    by (simp add: str_def)
  moreover have "inj (of_char :: char \<Rightarrow> nat)"
    by (rule injI) simp
  ultimately show "a = b"
    by (simp add: inj_map_eq_map)
qed simp

text \<open>The digests of the worked example of RFC 2617, section 3.5.\<close>

lemma rfc2617_password_hash:
  "md5_utf8 (str ''Mufasa:testrealm@host.com:Circle Of Life'')
     = Inr (str ''939e7578ed9e3c518a452acee763bce9'')"
  by (simp add: md5_eval del: md5_step.simps md5_add.simps)

lemma rfc2617_ha2:
  "md5_utf8 (str ''GET:/dir/index.html'') = Inr (str ''39aff3a2bab6126f332b942af96d3366'')"
  by (simp add: md5_eval del: md5_step.simps md5_add.simps)

lemma rfc2617_digest:
  "md5_utf8 (str (''939e7578ed9e3c518a452acee763bce9:dcd98b7102dd2f0e8b11d0f600bfb0c093''
       @ '':00000001:0a4f113b:auth:39aff3a2bab6126f332b942af96d3366''))
     = Inr (str ''6629fae49393a05397450978507c4ef1'')"
  by (simp add: md5_eval del: md5_step.simps md5_add.simps)

lemma rfc2617_response:
  "calc_response (str ''GET'') (str ''/dir/index.html'')
       (str ''939e7578ed9e3c518a452acee763bce9'') (str ''dcd98b7102dd2f0e8b11d0f600bfb0c093'')
       (Some (str ''auth'')) (Some (str ''MD5'')) (Some (str ''0a4f113b''))
       (Some (str ''00000001'')) None
     = Inr (Some (str ''6629fae49393a05397450978507c4ef1''))"
  using rfc2617_digest
  by (simp add: calc_response_def calc_ha1_def calc_ha2_def str_append rfc2617_ha2
      returned_def)

text \<open>The same request with the algorithm \<^verbatim>\<open>MD5-sess\<close>, no qop and two client nonces.\<close>

lemma sess_ha1_b:
  "md5_utf8 (str (''939e7578ed9e3c518a452acee763bce9:dcd98b7102dd2f0e8b11d0f600bfb0c093''
       @ '':0a4f113b''))
     = Inr (str ''5edb191b66dce1584c16cb7e7346fcee'')"
  by (simp add: md5_eval del: md5_step.simps md5_add.simps)

lemma sess_ha1_c:
  "md5_utf8 (str (''939e7578ed9e3c518a452acee763bce9:dcd98b7102dd2f0e8b11d0f600bfb0c093''
       @ '':0a4f113c''))
     = Inr (str ''e3c3f1d4227d048bf64856f233243fd8'')"
  by (simp add: md5_eval del: md5_step.simps md5_add.simps)

lemma sess_digest_b:
  "md5_utf8 (str (''5edb191b66dce1584c16cb7e7346fcee:dcd98b7102dd2f0e8b11d0f600bfb0c093''
       @ '':39aff3a2bab6126f332b942af96d3366''))
     = Inr (str ''4726bc10c33fa6cb357eb27807b1cce8'')"
  by (simp add: md5_eval del: md5_step.simps md5_add.simps)

lemma sess_digest_c:
  "md5_utf8 (str (''e3c3f1d4227d048bf64856f233243fd8:dcd98b7102dd2f0e8b11d0f600bfb0c093''
       @ '':39aff3a2bab6126f332b942af96d3366''))
     = Inr (str ''ef7149eacaefe1beecdfe411455bee58'')"
  by (simp add: md5_eval del: md5_step.simps md5_add.simps)

lemma sess_response_b:
  "calc_response (str ''GET'') (str ''/dir/index.html'')
       (str ''939e7578ed9e3c518a452acee763bce9'') (str ''dcd98b7102dd2f0e8b11d0f600bfb0c093'')
       None default_algorithm (Some (str ''0a4f113b'')) (Some (str ''00000001'')) None
     = Inr (Some (str ''4726bc10c33fa6cb357eb27807b1cce8''))"
  using sess_ha1_b sess_digest_b
  by (simp add: calc_response_def calc_ha1_def calc_ha2_def default_algorithm_def str_append
      str_eq_iff rfc2617_ha2 returned_def)

lemma sess_response_c:
  "calc_response (str ''GET'') (str ''/dir/index.html'')
       (str ''939e7578ed9e3c518a452acee763bce9'') (str ''dcd98b7102dd2f0e8b11d0f600bfb0c093'')
       None default_algorithm (Some (str ''0a4f113c'')) (Some (str ''00000001'')) None
     = Inr (Some (str ''ef7149eacaefe1beecdfe411455bee58''))"
  using sess_ha1_c sess_digest_c
  by (simp add: calc_response_def calc_ha1_def calc_ha2_def default_algorithm_def str_append
      str_eq_iff rfc2617_ha2 returned_def)

lemma utf8_char_encodable: "encodable c \<Longrightarrow> \<exists>bs. utf8_char c = Inr bs"
  by (auto simp: utf8_char_def encodable_def)

lemma utf8_char_not_encodable: "\<not> encodable c \<Longrightarrow> utf8_char c = Inl UnicodeEncodeError"
  by (auto simp: utf8_char_def encodable_def)

lemma utf8_encode_encodable: "list_all encodable s \<Longrightarrow> \<exists>bs. utf8_encode s = Inr bs"
proof (induction s)
  case Nil
  then show ?case by simp
next
  case (Cons c cs)
  then obtain bs rest where "utf8_char c = Inr bs" and "utf8_encode cs = Inr rest"
    using utf8_char_encodable [of c] by auto
  then show ?case by simp
qed

lemma utf8_encode_not_encodable:
  "\<not> list_all encodable s \<Longrightarrow> utf8_encode s = Inl UnicodeEncodeError"
proof (induction s)
  case Nil
  then show ?case by simp
next
  case (Cons c cs)
  show ?case
  proof (cases "encodable c")
    case True
    with Cons have "utf8_encode cs = Inl UnicodeEncodeError" by simp
    moreover from True obtain bs where "utf8_char c = Inr bs"
      using utf8_char_encodable by blast
    ultimately show ?thesis by simp
  next
    case False
    then show ?thesis by (simp add: utf8_char_not_encodable)
  qed
qed

lemma encodable_colon: "list_all encodable (str '':'')"
  by (simp add: str_def encodable_def)

lemma hexchar_lower_hex: "n < 16 \<Longrightarrow> lower_hex (hexchar n)"
  by (auto simp: hexchar_def lower_hex_def)

lemma hex_byte_lower_hex: "list_all lower_hex (hex_byte b)"
proof -
  have "unat b < 256"
    using unsigned_less [of b] by simp
  then have "unat b div 16 < 16" and "unat b mod 16 < 16"
    by simp_all
  then show ?thesis
    by (simp add: hex_byte_def hexchar_lower_hex)
qed

lemma hex_bytes_length: "length (concat (map hex_byte bs)) = 2 * length bs"
  by (induction bs) (simp_all add: hex_byte_def)

lemma hex_bytes_lower_hex: "list_all lower_hex (concat (map hex_byte bs))"
  by (induction bs) (simp_all add: hex_byte_lower_hex)

lemma digest_length: "length (digest st) = 16"
  by (cases st) (simp add: word32_bytes_def)

lemma md5_hexdigest_hex32: "hex32 (md5_hexdigest bs)"
  by (simp add: hex32_def md5_hexdigest_def hexdigest_def hex_bytes_length
      hex_bytes_lower_hex digest_length)

lemma md5_utf8_hex32: "md5_utf8 s = Inr h \<Longrightarrow> hex32 h"
  by (auto simp: md5_utf8_def md5_hexdigest_hex32 split: sum.splits)

lemma utf8_encode_Inr_encodable: "utf8_encode s = Inr bs \<Longrightarrow> list_all encodable s"
  using utf8_encode_not_encodable [of s] by auto

lemma md5_utf8_encodable:
  "list_all encodable s \<Longrightarrow>
     \<exists>bs. utf8_encode s = Inr bs \<and> md5_utf8 s = Inr (md5_hexdigest bs)"
  using utf8_encode_encodable [of s] by (auto simp: md5_utf8_def)

lemma md5_utf8_not_encodable:
  "\<not> list_all encodable s \<Longrightarrow> md5_utf8 s = Inl UnicodeEncodeError"
  using utf8_encode_not_encodable [of s] by (simp add: md5_utf8_def)

lemma md5_utf8_Inr_encodable: "md5_utf8 s = Inr h \<Longrightarrow> list_all encodable s"
  using md5_utf8_not_encodable [of s] by auto

lemma lower_hex_encodable: "lower_hex c \<Longrightarrow> encodable c"
  by (auto simp: lower_hex_def encodable_def)

lemma hex32_encodable: "hex32 h \<Longrightarrow> list_all encodable h"
  by (auto simp: hex32_def list_all_iff lower_hex_encodable)

lemma md5_hexdigest_encodable: "list_all encodable (md5_hexdigest b)"
  by (rule hex32_encodable) (rule md5_hexdigest_hex32)

lemma encodable_auth: "list_all encodable (str ''auth'')"
  and encodable_auth_int: "list_all encodable (str ''auth-int'')"
  by (simp_all add: str_def encodable_def)

section \<open>The first hash\<close>

text \<open>
  Claim C4, as the code has it. \<^verbatim>\<open>__calc_ha1\<close> returns the password hash unchanged
  when the algorithm is unset or \<^verbatim>\<open>MD5\<close>. With \<^verbatim>\<open>MD5-sess\<close> and a client nonce it
  returns the hash of \<^verbatim>\<open>password_hash:nonce:cnonce\<close> (the MD5 hex digest of its UTF-8
  bytes) when the UTF-8 codec accepts the password hash, the nonce and the client nonce
  (Unicode scalar values, no surrogate), and raises \<^verbatim>\<open>UnicodeEncodeError\<close> when one of
  them holds a surrogate code point. Without a client nonce it raises the missing-cnonce
  error, and so does \<^verbatim>\<open>calc_response\<close> whatever the qop is. Every other algorithm
  raises the unsupported-algorithm error.
\<close>

theorem calc_ha1_spec:
  "calc_ha1 password_hash nonce None cnonce = Inr password_hash
   \<and> calc_ha1 password_hash nonce (Some (str ''MD5'')) cnonce = Inr password_hash
   \<and> (list_all encodable (password_hash @ nonce @ cn) \<longrightarrow>
        (\<exists>bs. utf8_encode (password_hash @ str '':'' @ nonce @ str '':'' @ cn) = Inr bs
           \<and> calc_ha1 password_hash nonce (Some (str ''MD5-sess'')) (Some cn)
               = Inr (md5_hexdigest bs)))
   \<and> (\<not> list_all encodable (password_hash @ nonce @ cn) \<longrightarrow>
        calc_ha1 password_hash nonce (Some (str ''MD5-sess'')) (Some cn)
        = Inl UnicodeEncodeError)
   \<and> calc_ha1 password_hash nonce (Some (str ''MD5-sess'')) None
       = Inl (UnauthorizedException (str ''Missing '' @ quoted (str ''cnonce'')
           @ str '' with algorithm='' @ quoted (str ''MD5-sess'')))
   \<and> calc_response method uri password_hash nonce qop (Some (str ''MD5-sess'')) None nc body
       = Inl (UnauthorizedException (str ''Missing '' @ quoted (str ''cnonce'')
           @ str '' with algorithm='' @ quoted (str ''MD5-sess'')))
   \<and> (alg \<noteq> str ''MD5'' \<and> alg \<noteq> str ''MD5-sess''
        \<longrightarrow> calc_ha1 password_hash nonce (Some alg) cnonce
            = Inl (UnauthorizedException (str ''Unsupported algorithm='' @ quoted alg)))"
proof -
  have sess: "str ''MD5-sess'' \<noteq> str ''MD5''"
    using MD5_neq_MD5_sess by simp
  have sess_cn: "calc_ha1 password_hash nonce (Some (str ''MD5-sess'')) (Some cn)
      = md5_utf8 (password_hash @ str '':'' @ nonce @ str '':'' @ cn)"
    by (simp add: calc_ha1_def sess)
  have enc: "list_all encodable (password_hash @ str '':'' @ nonce @ str '':'' @ cn)
      \<longleftrightarrow> list_all encodable (password_hash @ nonce @ cn)"
    using encodable_colon by simp
  have ok: "\<exists>bs. utf8_encode (password_hash @ str '':'' @ nonce @ str '':'' @ cn) = Inr bs
      \<and> calc_ha1 password_hash nonce (Some (str ''MD5-sess'')) (Some cn)
          = Inr (md5_hexdigest bs)"
    if "list_all encodable (password_hash @ nonce @ cn)"
    using that md5_utf8_encodable [of "password_hash @ str '':'' @ nonce @ str '':'' @ cn"]
    unfolding sess_cn enc by blast
  have bad: "calc_ha1 password_hash nonce (Some (str ''MD5-sess'')) (Some cn)
      = Inl UnicodeEncodeError"
    if "\<not> list_all encodable (password_hash @ nonce @ cn)"
    using that md5_utf8_not_encodable [of "password_hash @ str '':'' @ nonce @ str '':'' @ cn"]
    unfolding sess_cn enc by blast
  have rest: "calc_ha1 password_hash nonce None cnonce = Inr password_hash
     \<and> calc_ha1 password_hash nonce (Some (str ''MD5'')) cnonce = Inr password_hash
     \<and> calc_ha1 password_hash nonce (Some (str ''MD5-sess'')) None
         = Inl (UnauthorizedException (str ''Missing '' @ quoted (str ''cnonce'')
             @ str '' with algorithm='' @ quoted (str ''MD5-sess'')))
     \<and> calc_response method uri password_hash nonce qop (Some (str ''MD5-sess'')) None nc body
         = Inl (UnauthorizedException (str ''Missing '' @ quoted (str ''cnonce'')
             @ str '' with algorithm='' @ quoted (str ''MD5-sess'')))
     \<and> (alg \<noteq> str ''MD5'' \<and> alg \<noteq> str ''MD5-sess''
          \<longrightarrow> calc_ha1 password_hash nonce (Some alg) cnonce
              = Inl (UnauthorizedException (str ''Unsupported algorithm='' @ quoted alg)))"
    unfolding calc_response_def calc_ha1_def by (simp add: sess)
  from ok bad rest show ?thesis by blast
qed

theorem calc_ha1_spec_witness:
  "list_all encodable (str ''h'' @ str ''n'' @ str ''c'')
   \<and> calc_ha1 (str ''h'') (str ''n'') (Some (str ''MD5-sess'')) (Some (str ''c''))
       = Inr (md5_hexdigest [104, 58, 110, 58, 99])
   \<and> \<not> list_all encodable (str ''h'' @ [0xDFFF] @ str ''c'')
   \<and> calc_ha1 (str ''h'') [0xDFFF] (Some (str ''MD5-sess'')) (Some (str ''c''))
       = Inl UnicodeEncodeError
   \<and> str ''ROT13'' \<noteq> str ''MD5'' \<and> str ''ROT13'' \<noteq> str ''MD5-sess''
   \<and> calc_ha1 (str ''h'') (str ''n'') (Some (str ''ROT13'')) None
       = Inl (UnauthorizedException (str ''Unsupported algorithm='' @ quoted (str ''ROT13'')))"
proof -
  have e1: "list_all encodable (str ''h'' @ str ''n'' @ str ''c'')"
    by (simp add: str_def encodable_def)
  have e2: "\<not> list_all encodable (str ''h'' @ [0xDFFF] @ str ''c'')"
    by (simp add: str_def encodable_def)
  have alg: "str ''ROT13'' \<noteq> str ''MD5'' \<and> str ''ROT13'' \<noteq> str ''MD5-sess''"
    by (simp add: str_def)
  note inst = calc_ha1_spec [of "str ''h''" _ None "str ''c''" "[]" "[]" None None None
      "str ''ROT13''"]
  show ?thesis
    using inst [of "str ''n''"] inst [of "[0xDFFF]"] e1 e2 alg
    by (auto simp: str_def utf8_char_def)
qed

theorem calc_ha1_spec_counterexample:
  "calc_ha1 (str ''939e7578ed9e3c518a452acee763bce9'') (str ''n'') (Some (str ''MD5-sess''))
       (Some [0xD800])
     = Inl UnicodeEncodeError"
  by (simp add: calc_ha1_def md5_utf8_def str_def utf8_char_def)

section \<open>The second hash\<close>

text \<open>
  Claim C5, as the code has it. When the UTF-8 codec accepts the method and the uri
  (Unicode scalar values, no surrogate), \<^verbatim>\<open>__calc_ha2\<close> returns the hash of
  \<^verbatim>\<open>method:uri\<close> for a qop that is unset or \<^verbatim>\<open>auth\<close>, and for \<^verbatim>\<open>auth-int\<close> with a
  body it hashes the body first and returns the hash of \<^verbatim>\<open>method:uri:\<close> followed by
  the hex digest of the body. When the method or the uri holds a surrogate code point,
  these calls raise \<^verbatim>\<open>UnicodeEncodeError\<close>. With \<^verbatim>\<open>auth-int\<close> and no body the call
  raises the missing-body error. A hash is the MD5 hex digest of the UTF-8 bytes of the
  string.
\<close>

theorem calc_ha2_spec:
  "(list_all encodable (method @ uri) \<longrightarrow>
      (\<exists>bs. utf8_encode (method @ str '':'' @ uri) = Inr bs
         \<and> calc_ha2 method uri None body = Inr (md5_hexdigest bs)
         \<and> calc_ha2 method uri (Some (str ''auth'')) body = Inr (md5_hexdigest bs))
      \<and> (\<exists>bs. utf8_encode (method @ str '':'' @ uri @ str '':'' @ md5_hexdigest b) = Inr bs
         \<and> calc_ha2 method uri (Some (str ''auth-int'')) (Some b) = Inr (md5_hexdigest bs)))
   \<and> (\<not> list_all encodable (method @ uri) \<longrightarrow>
      calc_ha2 method uri None body = Inl UnicodeEncodeError
      \<and> calc_ha2 method uri (Some (str ''auth'')) body = Inl UnicodeEncodeError
      \<and> calc_ha2 method uri (Some (str ''auth-int'')) (Some b) = Inl UnicodeEncodeError)
   \<and> calc_ha2 method uri (Some (str ''auth-int'')) None
       = Inl (UnauthorizedException (str ''Missing '' @ quoted (str ''body'')
           @ str '' with qop='' @ quoted (str ''auth-int'')))"
proof -
  have int: "str ''auth-int'' \<noteq> str ''auth''"
    using auth_neq_auth_int by simp
  have unset: "calc_ha2 method uri None body = md5_utf8 (method @ str '':'' @ uri)"
    and auth: "calc_ha2 method uri (Some (str ''auth'')) body
      = md5_utf8 (method @ str '':'' @ uri)"
    and auth_int: "calc_ha2 method uri (Some (str ''auth-int'')) (Some b)
      = md5_utf8 (method @ str '':'' @ uri @ str '':'' @ md5_hexdigest b)"
    and no_body: "calc_ha2 method uri (Some (str ''auth-int'')) None
      = Inl (UnauthorizedException (str ''Missing '' @ quoted (str ''body'')
          @ str '' with qop='' @ quoted (str ''auth-int'')))"
    by (simp_all add: calc_ha2_def int)
  have enc: "list_all encodable (method @ str '':'' @ uri)
      \<longleftrightarrow> list_all encodable (method @ uri)"
    using encodable_colon by simp
  have enc_int: "list_all encodable (method @ str '':'' @ uri @ str '':'' @ md5_hexdigest b)
      \<longleftrightarrow> list_all encodable (method @ uri)"
    using encodable_colon md5_hexdigest_encodable [of b] by simp
  show ?thesis
  proof (cases "list_all encodable (method @ uri)")
    case True
    with md5_utf8_encodable [of "method @ str '':'' @ uri"]
      md5_utf8_encodable [of "method @ str '':'' @ uri @ str '':'' @ md5_hexdigest b"]
    show ?thesis
      unfolding unset auth auth_int no_body enc enc_int by simp
  next
    case False
    with md5_utf8_not_encodable [of "method @ str '':'' @ uri"]
      md5_utf8_not_encodable [of "method @ str '':'' @ uri @ str '':'' @ md5_hexdigest b"]
    show ?thesis
      unfolding unset auth auth_int no_body enc enc_int by simp
  qed
qed

theorem calc_ha2_spec_witness:
  "list_all encodable (str ''GET'' @ str ''/'')
   \<and> calc_ha2 (str ''GET'') (str ''/'') None (Some [120]) = Inr (md5_hexdigest [71, 69, 84, 58, 47])
   \<and> calc_ha2 (str ''GET'') (str ''/'') (Some (str ''auth'')) (Some [120])
       = Inr (md5_hexdigest [71, 69, 84, 58, 47])
   \<and> calc_ha2 (str ''GET'') (str ''/'') (Some (str ''auth-int'')) (Some [120])
       = Inr (md5_hexdigest (map of_nat (str ''GET:/:9dd4e461268c8034f5c8564e155c67a6'')))
   \<and> \<not> list_all encodable (str ''GET'' @ [47, 0xDBFF])
   \<and> calc_ha2 (str ''GET'') [47, 0xDBFF] None (Some [120]) = Inl UnicodeEncodeError
   \<and> calc_ha2 (str ''GET'') [47, 0xDBFF] (Some (str ''auth'')) (Some [120])
       = Inl UnicodeEncodeError
   \<and> calc_ha2 (str ''GET'') [47, 0xDBFF] (Some (str ''auth-int'')) (Some [120])
       = Inl UnicodeEncodeError"
proof -
  have e1: "list_all encodable (str ''GET'' @ str ''/'')"
    by (simp add: str_def encodable_def)
  have e2: "\<not> list_all encodable (str ''GET'' @ [47, 0xDBFF])"
    by (simp add: str_def encodable_def)
  note inst = calc_ha2_spec [of "str ''GET''" _ "Some [120]" "[120]"]
  show ?thesis
    using inst [of "str ''/''"] inst [of "[47, 0xDBFF]"] e1 e2
    unfolding md5_x
    by (auto simp: str_def utf8_char_def)
qed

theorem calc_ha2_spec_counterexample:
  "calc_ha2 (str ''GET'') [47, 0xD800] None None = Inl UnicodeEncodeError
   \<and> calc_ha2 [0xD800] (str ''/'') (Some (str ''auth'')) None = Inl UnicodeEncodeError
   \<and> calc_ha2 (str ''POST'') [47, 0xD800] (Some (str ''auth-int'')) (Some [120])
       = Inl UnicodeEncodeError"
  by (simp add: calc_ha2_def md5_utf8_def str_def utf8_char_def)

section \<open>The response\<close>

lemma calc_ha2_Inr_qop:
  assumes "calc_ha2 method uri qop body = Inr ha2"
  shows "qop = None \<or> qop = Some (str ''auth'') \<or> qop = Some (str ''auth-int'')"
  using assms unfolding calc_ha2_def by (auto split: if_splits)

lemma calc_ha2_unsupported:
  assumes "qop \<noteq> None" "qop \<noteq> Some (str ''auth'')" "qop \<noteq> Some (str ''auth-int'')"
  shows "calc_ha2 method uri qop body
    = Inl (UnauthorizedException (str ''Unsupported qop='' @ quoted (fmt qop)))"
  using assms unfolding calc_ha2_def by auto

lemma calc_ha2_Inr_hex32:
  assumes "calc_ha2 method uri qop body = Inr ha2"
  shows "hex32 ha2"
  using assms unfolding calc_ha2_def
  by (auto split: if_splits option.splits dest: md5_utf8_hex32)

lemma calc_ha1_Inr_encodable:
  assumes "calc_ha1 password_hash nonce algorithm cnonce = Inr ha1"
  shows "list_all encodable ha1 \<longleftrightarrow> list_all encodable password_hash"
proof (cases "algorithm = Some (str ''MD5-sess'')")
  case True
  with assms obtain cn
    where h: "md5_utf8 (password_hash @ str '':'' @ nonce @ str '':'' @ cn) = Inr ha1"
    using MD5_neq_MD5_sess by (auto simp: calc_ha1_def split: option.splits)
  from md5_utf8_Inr_encodable [OF h] have "list_all encodable password_hash"
    by simp
  moreover from md5_utf8_hex32 [OF h] have "list_all encodable ha1"
    by (rule hex32_encodable)
  ultimately show ?thesis by simp
next
  case False
  with assms have "ha1 = password_hash"
    by (auto simp: calc_ha1_def split: if_splits)
  then show ?thesis by simp
qed

text \<open>
  Claim C6, as the code has it. When the qop is \<^verbatim>\<open>auth\<close> or \<^verbatim>\<open>auth-int\<close> and both
  hashes were computed, \<^verbatim>\<open>calc_response\<close> raises the missing-cnonce error if there is no
  client nonce, otherwise the missing-nc error if there is no request counter. When both
  are present and the UTF-8 codec accepts the password hash, the nonce, the request
  counter and the client nonce (Unicode scalar values, no surrogate), it returns the hash
  of \<^verbatim>\<open>HA1:nonce:nc:cnonce:qop:HA2\<close>, the MD5 hex digest of the UTF-8 bytes of that
  string; when one of them holds a surrogate code point it raises
  \<^verbatim>\<open>UnicodeEncodeError\<close>.
\<close>

theorem calc_response_qop:
  assumes "qop = Some (str ''auth'') \<or> qop = Some (str ''auth-int'')"
    and "calc_ha1 password_hash nonce algorithm cnonce = Inr ha1"
    and "calc_ha2 method uri qop body = Inr ha2"
  shows "(cnonce = None \<longrightarrow>
            calc_response method uri password_hash nonce qop algorithm cnonce nc body
            = Inl (UnauthorizedException (str ''Missing '' @ quoted (str ''cnonce'')
                @ str '' with the qop='' @ quoted (fmt qop))))
       \<and> (cnonce = Some cn \<and> nc = None \<longrightarrow>
            calc_response method uri password_hash nonce qop algorithm cnonce nc body
            = Inl (UnauthorizedException (str ''Missing '' @ quoted (str ''nc'')
                @ str '' with the qop='' @ quoted (fmt qop))))
       \<and> (cnonce = Some cn \<and> nc = Some n
            \<and> list_all encodable (password_hash @ nonce @ n @ cn) \<longrightarrow>
            (\<exists>bs. utf8_encode (ha1 @ str '':'' @ nonce @ str '':'' @ n @ str '':'' @ cn
                       @ str '':'' @ fmt qop @ str '':'' @ ha2) = Inr bs
               \<and> calc_response method uri password_hash nonce qop algorithm cnonce nc body
                   = Inr (Some (md5_hexdigest bs))))
       \<and> (cnonce = Some cn \<and> nc = Some n
            \<and> \<not> list_all encodable (password_hash @ nonce @ n @ cn) \<longrightarrow>
            calc_response method uri password_hash nonce qop algorithm cnonce nc body
            = Inl UnicodeEncodeError)"
proof -
  let ?s = "ha1 @ str '':'' @ nonce @ str '':'' @ n @ str '':'' @ cn
      @ str '':'' @ fmt qop @ str '':'' @ ha2"
  have q: "list_all encodable (fmt qop)"
    using assms(1) encodable_auth encodable_auth_int by auto
  have ha2: "list_all encodable ha2"
    using calc_ha2_Inr_hex32 [OF assms(3)] by (rule hex32_encodable)
  have enc: "list_all encodable ?s \<longleftrightarrow> list_all encodable (password_hash @ nonce @ n @ cn)"
    using q ha2 encodable_colon calc_ha1_Inr_encodable [OF assms(2)] by simp
  have errors: "(cnonce = None \<longrightarrow>
            calc_response method uri password_hash nonce qop algorithm cnonce nc body
            = Inl (UnauthorizedException (str ''Missing '' @ quoted (str ''cnonce'')
                @ str '' with the qop='' @ quoted (fmt qop))))
       \<and> (cnonce = Some cn \<and> nc = None \<longrightarrow>
            calc_response method uri password_hash nonce qop algorithm cnonce nc body
            = Inl (UnauthorizedException (str ''Missing '' @ quoted (str ''nc'')
                @ str '' with the qop='' @ quoted (fmt qop))))"
    using assms unfolding calc_response_def by auto
  have both: "calc_response method uri password_hash nonce qop algorithm cnonce nc body
      = returned (md5_utf8 ?s)"
    if "cnonce = Some cn" and "nc = Some n"
    using assms that unfolding calc_response_def by auto
  have ok: "\<exists>bs. utf8_encode ?s = Inr bs
      \<and> calc_response method uri password_hash nonce qop algorithm cnonce nc body
          = Inr (Some (md5_hexdigest bs))"
    if "cnonce = Some cn" and "nc = Some n"
      and "list_all encodable (password_hash @ nonce @ n @ cn)"
  proof -
    have r: "calc_response method uri password_hash nonce qop algorithm cnonce nc body
        = returned (md5_utf8 ?s)"
      by (rule both [OF that(1) that(2)])
    from that enc have "list_all encodable ?s"
      by simp
    from md5_utf8_encodable [OF this]
    obtain bs where "utf8_encode ?s = Inr bs" and "md5_utf8 ?s = Inr (md5_hexdigest bs)"
      by blast
    then show ?thesis
      unfolding r by (simp add: returned_def)
  qed
  have bad: "calc_response method uri password_hash nonce qop algorithm cnonce nc body
      = Inl UnicodeEncodeError"
    if "cnonce = Some cn" and "nc = Some n"
      and "\<not> list_all encodable (password_hash @ nonce @ n @ cn)"
  proof -
    have r: "calc_response method uri password_hash nonce qop algorithm cnonce nc body
        = returned (md5_utf8 ?s)"
      by (rule both [OF that(1) that(2)])
    from that enc have "\<not> list_all encodable ?s"
      by simp
    from md5_utf8_not_encodable [OF this] show ?thesis
      unfolding r by (simp add: returned_def)
  qed
  from errors ok bad show ?thesis by blast
qed

theorem calc_response_qop_witness:
  "calc_response (str ''GET'') (str ''/dir/index.html'')
       (str ''939e7578ed9e3c518a452acee763bce9'') (str ''dcd98b7102dd2f0e8b11d0f600bfb0c093'')
       (Some (str ''auth'')) (Some (str ''MD5'')) None (Some (str ''00000001'')) None
     = Inl (UnauthorizedException (str ''Missing '' @ quoted (str ''cnonce'')
         @ str '' with the qop='' @ quoted (str ''auth'')))
   \<and> calc_response (str ''GET'') (str ''/dir/index.html'')
       (str ''939e7578ed9e3c518a452acee763bce9'') (str ''dcd98b7102dd2f0e8b11d0f600bfb0c093'')
       (Some (str ''auth'')) (Some (str ''MD5'')) (Some (str ''0a4f113b'')) None None
     = Inl (UnauthorizedException (str ''Missing '' @ quoted (str ''nc'')
         @ str '' with the qop='' @ quoted (str ''auth'')))
   \<and> calc_response (str ''GET'') (str ''/dir/index.html'')
       (str ''939e7578ed9e3c518a452acee763bce9'') (str ''dcd98b7102dd2f0e8b11d0f600bfb0c093'')
       (Some (str ''auth'')) (Some (str ''MD5'')) (Some (str ''0a4f113b''))
       (Some (str ''00000001'')) None
     = Inr (Some (md5_hexdigest (map of_nat
         (str (''939e7578ed9e3c518a452acee763bce9:dcd98b7102dd2f0e8b11d0f600bfb0c093''
            @ '':00000001:0a4f113b:auth:39aff3a2bab6126f332b942af96d3366'')))))
   \<and> calc_response (str ''GET'') (str ''/dir/index.html'')
       (str ''939e7578ed9e3c518a452acee763bce9'') (str ''dcd98b7102dd2f0e8b11d0f600bfb0c093'')
       (Some (str ''auth'')) (Some (str ''MD5'')) (Some (str ''0a4f113b''))
       (Some [48, 0xDC00]) None
     = Inl UnicodeEncodeError"
proof -
  let ?ph = "str ''939e7578ed9e3c518a452acee763bce9''"
  let ?nonce = "str ''dcd98b7102dd2f0e8b11d0f600bfb0c093''"
  have q: "Some (str ''auth'') = Some (str ''auth'') \<or> Some (str ''auth'') = Some (str ''auth-int'')"
    by simp
  have ha1: "calc_ha1 ?ph ?nonce (Some (str ''MD5'')) c = Inr ?ph" for c
    by (simp add: calc_ha1_def)
  have ha2: "calc_ha2 (str ''GET'') (str ''/dir/index.html'') (Some (str ''auth'')) None
      = Inr (str ''39aff3a2bab6126f332b942af96d3366'')"
    by (simp add: calc_ha2_def str_append rfc2617_ha2)
  have e1: "list_all encodable (?ph @ ?nonce @ str ''00000001'' @ str ''0a4f113b'')"
    by (simp add: str_def encodable_def)
  have e2: "\<not> list_all encodable (?ph @ ?nonce @ [48, 0xDC00] @ str ''0a4f113b'')"
    by (simp add: str_def encodable_def)
  note inst = calc_response_qop [of "Some (str ''auth'')" "?ph" "?nonce" "Some (str ''MD5'')"
      _ "?ph" "str ''GET''" "str ''/dir/index.html''" None
      "str ''39aff3a2bab6126f332b942af96d3366''" _ "str ''0a4f113b''", OF q ha1 ha2]
  show ?thesis
    using inst [where cnonce = None and nc = "Some (str ''00000001'')" and n = "str ''00000001''"]
      inst [where cnonce = "Some (str ''0a4f113b'')" and nc = None and n = "str ''00000001''"]
      inst [where cnonce = "Some (str ''0a4f113b'')" and nc = "Some (str ''00000001'')"
        and n = "str ''00000001''"]
      inst [where cnonce = "Some (str ''0a4f113b'')" and nc = "Some [48, 0xDC00]"
        and n = "[48, 0xDC00]"]
      e1 e2
    by (auto simp: str_def utf8_char_def)
qed

theorem calc_response_qop_counterexample:
  "calc_ha1 (str ''939e7578ed9e3c518a452acee763bce9'') (str ''n'') (Some (str ''MD5''))
       (Some (str ''0a4f113b''))
     = Inr (str ''939e7578ed9e3c518a452acee763bce9'')
   \<and> calc_ha2 (str ''GET'') (str ''/dir/index.html'') (Some (str ''auth'')) None
     = Inr (str ''39aff3a2bab6126f332b942af96d3366'')
   \<and> calc_response (str ''GET'') (str ''/dir/index.html'')
       (str ''939e7578ed9e3c518a452acee763bce9'') (str ''n'') (Some (str ''auth''))
       (Some (str ''MD5'')) (Some (str ''0a4f113b'')) (Some [0xD800]) None
     = Inl UnicodeEncodeError"
proof -
  have ha2: "calc_ha2 (str ''GET'') (str ''/dir/index.html'') (Some (str ''auth'')) None
      = Inr (str ''39aff3a2bab6126f332b942af96d3366'')"
    by (simp add: calc_ha2_def str_append rfc2617_ha2)
  have bad: "\<not> list_all encodable (str ''939e7578ed9e3c518a452acee763bce9'' @ str '':''
      @ str ''n'' @ str '':'' @ [0xD800] @ str '':'' @ str ''0a4f113b'' @ str '':''
      @ str ''auth'' @ str '':'' @ str ''39aff3a2bab6126f332b942af96d3366'')"
    by (simp add: encodable_def)
  show ?thesis
    using md5_utf8_not_encodable [OF bad]
    by (simp add: calc_response_def calc_ha1_def ha2 returned_def)
qed






text \<open>
  Claim C10. With the algorithm \<^verbatim>\<open>MD5-sess\<close> (the default of \<^verbatim>\<open>calc_response\<close>), a
  qop of \<^verbatim>\<open>auth\<close> or \<^verbatim>\<open>auth-int\<close> and no client nonce, the error that
  \<^verbatim>\<open>calc_response\<close> raises is the one of \<^verbatim>\<open>__calc_ha1\<close>, whose message names the
  algorithm, and not the one of the later qop check.
\<close>

theorem ha1_error_first:
  assumes "qop = Some (str ''auth'') \<or> qop = Some (str ''auth-int'')"
  shows "calc_response method uri password_hash nonce qop default_algorithm None nc body
      = Inl (UnauthorizedException (str ''Missing '' @ quoted (str ''cnonce'')
          @ str '' with algorithm='' @ quoted (str ''MD5-sess'')))
    \<and> calc_response method uri password_hash nonce qop (Some (str ''MD5-sess'')) None nc body
      = Inl (UnauthorizedException (str ''Missing '' @ quoted (str ''cnonce'')
          @ str '' with algorithm='' @ quoted (str ''MD5-sess'')))
    \<and> calc_response method uri password_hash nonce qop default_algorithm None nc body
      \<noteq> Inl (UnauthorizedException (str ''Missing '' @ quoted (str ''cnonce'')
          @ str '' with the qop='' @ quoted (fmt qop)))"
proof -
  have sess: "str ''MD5-sess'' \<noteq> str ''MD5''"
    using MD5_neq_MD5_sess by simp
  have ha1: "calc_ha1 password_hash nonce (Some (str ''MD5-sess'')) None
      = Inl (UnauthorizedException (str ''Missing '' @ quoted (str ''cnonce'')
          @ str '' with algorithm='' @ quoted (str ''MD5-sess'')))"
    by (simp add: calc_ha1_def sess)
  have msg: "str '' with algorithm='' @ x \<noteq> str '' with the qop='' @ y" for x y
    by (simp add: str_def)
  show ?thesis
    by (simp add: calc_response_def default_algorithm_def ha1 msg)
qed

theorem ha1_error_first_witness:
  "calc_response (str ''GET'') (str ''/'') (str ''h'') (str ''n'') (Some (str ''auth''))
       default_algorithm None (Some (str ''00000001'')) None
     = Inl (UnauthorizedException (str ''Missing '' @ quoted (str ''cnonce'')
         @ str '' with algorithm='' @ quoted (str ''MD5-sess'')))
   \<and> calc_response (str ''POST'') (str ''/'') (str ''h'') (str ''n'') (Some (str ''auth-int''))
       (Some (str ''MD5-sess'')) None None (Some [120])
     = Inl (UnauthorizedException (str ''Missing '' @ quoted (str ''cnonce'')
         @ str '' with algorithm='' @ quoted (str ''MD5-sess'')))"
  using ha1_error_first [of "Some (str ''auth'')" "str ''GET''" "str ''/''" "str ''h''"
      "str ''n''" "Some (str ''00000001'')" None]
    ha1_error_first [of "Some (str ''auth-int'')" "str ''POST''" "str ''/''" "str ''h''"
      "str ''n''" None "Some [120]"]
  by simp

text \<open>
  Claim C2, as the code has it. For every qop other than unset, \<^verbatim>\<open>auth\<close> and
  \<^verbatim>\<open>auth-int\<close>, \<^verbatim>\<open>calc_response\<close> always raises an error and never returns an
  empty result. The first hash is computed before the qop is looked at: when
  \<^verbatim>\<open>__calc_ha1\<close> succeeds the error is the unsupported-qop error, whether the client
  nonce is present or not; when \<^verbatim>\<open>__calc_ha1\<close> raises, its error is the one reported.
\<close>

theorem unsupported_qop:
  assumes "qop \<noteq> None" and "qop \<noteq> Some (str ''auth'')" and "qop \<noteq> Some (str ''auth-int'')"
  shows "(calc_ha1 password_hash nonce algorithm cnonce = Inr ha1 \<longrightarrow>
            calc_response method uri password_hash nonce qop algorithm cnonce nc body
            = Inl (UnauthorizedException (str ''Unsupported qop='' @ quoted (fmt qop))))
       \<and> (calc_ha1 password_hash nonce algorithm cnonce = Inl e \<longrightarrow>
            calc_response method uri password_hash nonce qop algorithm cnonce nc body = Inl e)
       \<and> (\<exists>e'. calc_response method uri password_hash nonce qop algorithm cnonce nc body
            = Inl e')"
proof -
  note ha2 = calc_ha2_unsupported [OF assms, of "method" "uri" body]
  show ?thesis
    by (cases "calc_ha1 password_hash nonce algorithm cnonce")
      (simp_all add: calc_response_def ha2)
qed

theorem unsupported_qop_witness:
  "calc_response (str ''GET'') (str ''/'') (str ''h'') (str ''n'') (Some (str ''bogus''))
       (Some (str ''MD5'')) (Some (str ''c'')) (Some (str ''1'')) None
     = Inl (UnauthorizedException (str ''Unsupported qop='' @ quoted (str ''bogus'')))
   \<and> calc_response (str ''GET'') (str ''/'') (str ''h'') (str ''n'') (Some (str ''bogus''))
       (Some (str ''MD5'')) None None None
     = Inl (UnauthorizedException (str ''Unsupported qop='' @ quoted (str ''bogus'')))
   \<and> calc_response (str ''GET'') (str ''/'') (str ''h'') (str ''n'') (Some (str ''bogus''))
       (Some (str ''ROT13'')) None None None
     = Inl (UnauthorizedException (str ''Unsupported algorithm='' @ quoted (str ''ROT13'')))"
proof -
  have q: "Some (str ''bogus'') \<noteq> None" "Some (str ''bogus'') \<noteq> Some (str ''auth'')"
    "Some (str ''bogus'') \<noteq> Some (str ''auth-int'')"
    by (simp_all add: str_def)
  have ha1: "calc_ha1 (str ''h'') (str ''n'') (Some (str ''MD5'')) c = Inr (str ''h'')" for c
    by (simp add: calc_ha1_def)
  have rot: "calc_ha1 (str ''h'') (str ''n'') (Some (str ''ROT13'')) None
      = Inl (UnauthorizedException (str ''Unsupported algorithm='' @ quoted (str ''ROT13'')))"
    by (simp add: calc_ha1_def str_def)
  note inst = unsupported_qop [of "Some (str ''bogus'')" "str ''h''" "str ''n''" _ _ _
      "str ''GET''" "str ''/''" _ None, OF q]
  show ?thesis
    using inst [where algorithm = "Some (str ''MD5'')" and cnonce = "Some (str ''c'')"
          and nc = "Some (str ''1'')" and ?ha1.0 = "str ''h''"]
      inst [where algorithm = "Some (str ''MD5'')" and cnonce = None and nc = None
          and ?ha1.0 = "str ''h''"]
      inst [where algorithm = "Some (str ''ROT13'')" and cnonce = None and nc = None
          and e = "UnauthorizedException (str ''Unsupported algorithm='' @ quoted (str ''ROT13''))"]
    by (simp add: ha1 rot)
qed

theorem unsupported_qop_counterexample:
  "calc_response (str ''GET'') (str ''/'') (str ''h'') (str ''n'') (Some (str ''bogus''))
       default_algorithm None None None
     = Inl (UnauthorizedException (str ''Missing '' @ quoted (str ''cnonce'')
         @ str '' with algorithm='' @ quoted (str ''MD5-sess'')))
   \<and> calc_response (str ''GET'') (str ''/'') (str ''h'') (str ''n'') (Some (str ''bogus''))
       default_algorithm None None None
     \<noteq> Inl (UnauthorizedException (str ''Unsupported qop='' @ quoted (str ''bogus'')))"
  by (simp add: calc_response_def calc_ha1_def default_algorithm_def str_def quoted_def)

lemma response_qop_unset:
  "calc_response method uri password_hash nonce None algorithm cnonce nc body =
     (case calc_ha1 password_hash nonce algorithm cnonce of
        Inl e \<Rightarrow> Inl e
      | Inr ha1 \<Rightarrow>
          (case calc_ha2 method uri None body of
             Inl e \<Rightarrow> Inl e
           | Inr ha2 \<Rightarrow> returned (md5_utf8 (ha1 @ str '':'' @ nonce @ str '':'' @ ha2))))"
  by (simp add: calc_response_def split: sum.splits)

text \<open>
  Claim C3, as the code has it. With the qop unset the request counter never changes the
  result, and the client nonce does not change it either unless the algorithm is
  \<^verbatim>\<open>MD5-sess\<close>: the result is the hash of \<^verbatim>\<open>HA1:nonce:HA2\<close>, and with
  \<^verbatim>\<open>MD5-sess\<close> the first hash is computed from the client nonce.
\<close>

theorem qop_unset_nc_cnonce:
  "calc_response method uri password_hash nonce None algorithm cnonce nc body
     = calc_response method uri password_hash nonce None algorithm cnonce nc' body
   \<and> (algorithm \<noteq> Some (str ''MD5-sess'') \<longrightarrow>
        calc_response method uri password_hash nonce None algorithm cnonce nc body
        = calc_response method uri password_hash nonce None algorithm cnonce' nc' body)
   \<and> (calc_ha1 password_hash nonce algorithm cnonce = Inr ha1
        \<and> calc_ha2 method uri None body = Inr ha2 \<longrightarrow>
        calc_response method uri password_hash nonce None algorithm cnonce nc body
        = returned (md5_utf8 (ha1 @ str '':'' @ nonce @ str '':'' @ ha2)))"
proof (intro conjI impI)
  show "calc_response method uri password_hash nonce None algorithm cnonce nc body
      = calc_response method uri password_hash nonce None algorithm cnonce nc' body"
    by (simp add: response_qop_unset)
next
  assume "algorithm \<noteq> Some (str ''MD5-sess'')"
  then have "calc_ha1 password_hash nonce algorithm cnonce
      = calc_ha1 password_hash nonce algorithm cnonce'"
    by (simp add: calc_ha1_def)
  then show "calc_response method uri password_hash nonce None algorithm cnonce nc body
      = calc_response method uri password_hash nonce None algorithm cnonce' nc' body"
    by (simp add: response_qop_unset)
next
  assume "calc_ha1 password_hash nonce algorithm cnonce = Inr ha1
      \<and> calc_ha2 method uri None body = Inr ha2"
  then show "calc_response method uri password_hash nonce None algorithm cnonce nc body
      = returned (md5_utf8 (ha1 @ str '':'' @ nonce @ str '':'' @ ha2))"
    by (simp add: response_qop_unset)
qed

theorem qop_unset_nc_cnonce_witness:
  "calc_response (str ''GET'') (str ''/'') (str ''h'') (str ''n'') None (Some (str ''MD5''))
       (Some (str ''a'')) (Some (str ''00000001'')) None
     = calc_response (str ''GET'') (str ''/'') (str ''h'') (str ''n'') None (Some (str ''MD5''))
       None None None
   \<and> calc_response (str ''GET'') (str ''/'') (str ''h'') (str ''n'') None (Some (str ''MD5''))
       (Some (str ''a'')) (Some (str ''00000001'')) None
     = returned (md5_utf8 (str ''h'' @ str '':'' @ str ''n'' @ str '':''
         @ md5_hexdigest [71, 69, 84, 58, 47]))"
proof -
  have alg: "Some (str ''MD5'') \<noteq> Some (str ''MD5-sess'')"
    using MD5_neq_MD5_sess by simp
  have ha1: "calc_ha1 (str ''h'') (str ''n'') (Some (str ''MD5'')) (Some (str ''a''))
      = Inr (str ''h'')"
    by (simp add: calc_ha1_def)
  have ha2: "calc_ha2 (str ''GET'') (str ''/'') None None
      = Inr (md5_hexdigest [71, 69, 84, 58, 47])"
    by (simp add: calc_ha2_def md5_utf8_def str_def utf8_char_def)
  show ?thesis
    using qop_unset_nc_cnonce [of "str ''GET''" "str ''/''" "str ''h''" "str ''n''"
        "Some (str ''MD5'')" "Some (str ''a'')" "Some (str ''00000001'')" None None None
        "str ''h''" "md5_hexdigest [71, 69, 84, 58, 47]"] alg ha1 ha2
    by blast
qed

theorem qop_unset_cnonce_counterexample:
  "calc_response (str ''GET'') (str ''/dir/index.html'')
       (str ''939e7578ed9e3c518a452acee763bce9'') (str ''dcd98b7102dd2f0e8b11d0f600bfb0c093'')
       None default_algorithm (Some (str ''0a4f113b'')) (Some (str ''00000001'')) None
     = Inr (Some (str ''4726bc10c33fa6cb357eb27807b1cce8''))
   \<and> calc_response (str ''GET'') (str ''/dir/index.html'')
       (str ''939e7578ed9e3c518a452acee763bce9'') (str ''dcd98b7102dd2f0e8b11d0f600bfb0c093'')
       None default_algorithm (Some (str ''0a4f113c'')) (Some (str ''00000001'')) None
     = Inr (Some (str ''ef7149eacaefe1beecdfe411455bee58''))
   \<and> calc_response (str ''GET'') (str ''/dir/index.html'')
       (str ''939e7578ed9e3c518a452acee763bce9'') (str ''dcd98b7102dd2f0e8b11d0f600bfb0c093'')
       None default_algorithm (Some (str ''0a4f113b'')) (Some (str ''00000001'')) None
     \<noteq> calc_response (str ''GET'') (str ''/dir/index.html'')
       (str ''939e7578ed9e3c518a452acee763bce9'') (str ''dcd98b7102dd2f0e8b11d0f600bfb0c093'')
       None default_algorithm (Some (str ''0a4f113c'')) (Some (str ''00000001'')) None"
  by (simp add: sess_response_b sess_response_c str_eq_iff)

section \<open>The worked example of RFC 2617\<close>

text \<open>
  Claim C1, as the code has it. For the worked example of RFC 2617,
  \<^verbatim>\<open>make_password_hash\<close> gives \<^verbatim>\<open>939e7578ed9e3c518a452acee763bce9\<close>, and with it
  \<^verbatim>\<open>calc_response\<close> returns the 32 characters
  \<^verbatim>\<open>6629fae49393a05397450978507c4ef1\<close>: the digest of the RFC, whose last character
  the claimed string of 31 characters lacks.
\<close>

theorem rfc2617_example:
  "make_password_hash (str ''testrealm@host.com'') (str ''Mufasa'') (str ''Circle Of Life'')
     = Inr (str ''939e7578ed9e3c518a452acee763bce9'')
   \<and> calc_response (str ''GET'') (str ''/dir/index.html'')
       (str ''939e7578ed9e3c518a452acee763bce9'') (str ''dcd98b7102dd2f0e8b11d0f600bfb0c093'')
       (Some (str ''auth'')) (Some (str ''MD5'')) (Some (str ''0a4f113b''))
       (Some (str ''00000001'')) None
     = Inr (Some (str ''6629fae49393a05397450978507c4ef1''))"
  using rfc2617_password_hash
  by (simp add: make_password_hash_def str_append rfc2617_response)

theorem rfc2617_example_counterexample:
  "make_password_hash (str ''testrealm@host.com'') (str ''Mufasa'') (str ''Circle Of Life'')
     = Inr (str ''939e7578ed9e3c518a452acee763bce9'')
   \<and> calc_response (str ''GET'') (str ''/dir/index.html'')
       (str ''939e7578ed9e3c518a452acee763bce9'') (str ''dcd98b7102dd2f0e8b11d0f600bfb0c093'')
       (Some (str ''auth'')) (Some (str ''MD5'')) (Some (str ''0a4f113b''))
       (Some (str ''00000001'')) None
     \<noteq> Inr (Some (str ''6629fae49393a05397450978507c4ef''))"
  using rfc2617_password_hash
  by (simp add: make_password_hash_def str_append rfc2617_response str_eq_iff)

section \<open>The password hash\<close>

text \<open>
  Claim C7, as the code has it. For every realm, username and password, empty strings
  included, whose code points the UTF-8 codec accepts (Unicode scalar values, no
  surrogate), \<^verbatim>\<open>make_password_hash\<close> returns the MD5 hex digest of the UTF-8 bytes of
  \<^verbatim>\<open>username:realm:password\<close>. When one of the three strings holds a surrogate code
  point, the call raises \<^verbatim>\<open>UnicodeEncodeError\<close>. The result is a function of the three
  strings, so it is the same on every call.
\<close>

theorem make_password_hash_spec:
  "(list_all encodable (username @ realm @ password) \<longrightarrow>
      (\<exists>bs. utf8_encode (username @ str '':'' @ realm @ str '':'' @ password) = Inr bs
         \<and> make_password_hash realm username password = Inr (md5_hexdigest bs)))
   \<and> (\<not> list_all encodable (username @ realm @ password) \<longrightarrow>
      make_password_hash realm username password = Inl UnicodeEncodeError)"
proof (intro conjI impI)
  assume "list_all encodable (username @ realm @ password)"
  with encodable_colon
  have "list_all encodable (username @ str '':'' @ realm @ str '':'' @ password)"
    by simp
  from utf8_encode_encodable [OF this]
  obtain bs where "utf8_encode (username @ str '':'' @ realm @ str '':'' @ password) = Inr bs" ..
  then show "\<exists>bs. utf8_encode (username @ str '':'' @ realm @ str '':'' @ password) = Inr bs
      \<and> make_password_hash realm username password = Inr (md5_hexdigest bs)"
    by (simp add: make_password_hash_def md5_utf8_def)
next
  assume "\<not> list_all encodable (username @ realm @ password)"
  then have "\<not> list_all encodable (username @ str '':'' @ realm @ str '':'' @ password)"
    by auto
  from utf8_encode_not_encodable [OF this]
  show "make_password_hash realm username password = Inl UnicodeEncodeError"
    by (simp add: make_password_hash_def md5_utf8_def)
qed

theorem make_password_hash_spec_witness:
  "list_all encodable ([] @ [] @ [])
   \<and> make_password_hash [] [] [] = Inr (md5_hexdigest [58, 58])
   \<and> list_all encodable (str ''Mufasa'' @ str ''testrealm@host.com'' @ str ''Circle Of Life'')
   \<and> make_password_hash (str ''testrealm@host.com'') (str ''Mufasa'') (str ''Circle Of Life'')
       = Inr (md5_hexdigest (map of_nat (str ''Mufasa:testrealm@host.com:Circle Of Life'')))
   \<and> \<not> list_all encodable (str ''Mufasa'' @ str ''testrealm@host.com'' @ [0xDC00])
   \<and> make_password_hash (str ''testrealm@host.com'') (str ''Mufasa'') [0xDC00]
       = Inl UnicodeEncodeError"
proof -
  have e1: "list_all encodable ([] @ [] @ [])"
    by simp
  have e2: "list_all encodable
      (str ''Mufasa'' @ str ''testrealm@host.com'' @ str ''Circle Of Life'')"
    by (simp add: str_def encodable_def)
  have e3: "\<not> list_all encodable (str ''Mufasa'' @ str ''testrealm@host.com'' @ [0xDC00])"
    by (simp add: str_def encodable_def)
  show ?thesis
    using make_password_hash_spec [of "[]" "[]" "[]"]
      make_password_hash_spec [of "str ''Mufasa''" "str ''testrealm@host.com''"
        "str ''Circle Of Life''"]
      make_password_hash_spec [of "str ''Mufasa''" "str ''testrealm@host.com''" "[0xDC00]"]
      e1 e2 e3
    by (auto simp: str_def utf8_char_def)
qed

theorem make_password_hash_counterexample:
  "make_password_hash [] [0xD800] [] = Inl UnicodeEncodeError"
  by (simp add: make_password_hash_def md5_utf8_def str_def utf8_char_def)

section \<open>The shape of the digests\<close>

lemma returned_hex32: "returned (md5_utf8 s) = Inr r \<Longrightarrow> \<exists>d. r = Some d \<and> hex32 d"
  by (cases "md5_utf8 s") (auto simp: returned_def md5_utf8_hex32)

lemma calc_response_hex32:
  assumes "calc_response method uri password_hash nonce qop algorithm cnonce nc body = Inr r"
  shows "\<exists>d. r = Some d \<and> hex32 d"
proof (cases "calc_ha1 password_hash nonce algorithm cnonce")
  case (Inl e)
  with assms show ?thesis by (simp add: calc_response_def)
next
  case ha1: (Inr ha1)
  show ?thesis
  proof (cases "calc_ha2 method uri qop body")
    case (Inl e)
    with assms ha1 show ?thesis by (simp add: calc_response_def)
  next
    case ha2: (Inr ha2)
    from calc_ha2_Inr_qop [OF ha2] assms ha1 ha2 show ?thesis
      by (auto simp: calc_response_def dest: returned_hex32 split: option.splits)
  qed
qed

text \<open>
  Claim C8. Every value that \<^verbatim>\<open>make_password_hash\<close> returns, and every value that
  \<^verbatim>\<open>calc_response\<close> returns, is a string of exactly 32 lowercase hexadecimal digits.
\<close>

theorem results_hex32:
  "(make_password_hash realm username password = Inr h \<longrightarrow> hex32 h)
   \<and> (calc_response method uri password_hash nonce qop algorithm cnonce nc body = Inr r \<longrightarrow>
        (\<exists>d. r = Some d \<and> hex32 d))"
  using md5_utf8_hex32 calc_response_hex32 unfolding make_password_hash_def by blast

theorem results_hex32_witness:
  "make_password_hash (str ''testrealm@host.com'') (str ''Mufasa'') (str ''Circle Of Life'')
     = Inr (str ''939e7578ed9e3c518a452acee763bce9'')
   \<and> hex32 (str ''939e7578ed9e3c518a452acee763bce9'')
   \<and> calc_response (str ''GET'') (str ''/dir/index.html'')
       (str ''939e7578ed9e3c518a452acee763bce9'') (str ''dcd98b7102dd2f0e8b11d0f600bfb0c093'')
       (Some (str ''auth'')) (Some (str ''MD5'')) (Some (str ''0a4f113b''))
       (Some (str ''00000001'')) None
     = Inr (Some (str ''6629fae49393a05397450978507c4ef1''))
   \<and> hex32 (str ''6629fae49393a05397450978507c4ef1'')"
proof -
  have h: "make_password_hash (str ''testrealm@host.com'') (str ''Mufasa'')
      (str ''Circle Of Life'') = Inr (str ''939e7578ed9e3c518a452acee763bce9'')"
    using rfc2617_password_hash by (simp add: make_password_hash_def str_append)
  show ?thesis
    using results_hex32 [of "str ''testrealm@host.com''" "str ''Mufasa''"
        "str ''Circle Of Life''" "str ''939e7578ed9e3c518a452acee763bce9''"
        "str ''GET''" "str ''/dir/index.html''" "str ''939e7578ed9e3c518a452acee763bce9''"
        "str ''dcd98b7102dd2f0e8b11d0f600bfb0c093''" "Some (str ''auth'')"
        "Some (str ''MD5'')" "Some (str ''0a4f113b'')" "Some (str ''00000001'')" None
        "Some (str ''6629fae49393a05397450978507c4ef1'')"]
      h rfc2617_response
    by simp
qed

end
